theory Spec2Isabelle
  imports Complex_Main
begin

section \<open>Decimal rendering of the cell counter\<close>

text \<open>
  Cell identifiers are produced by Python's \<^verbatim>\<open>str(self.cell_id)\<close>. The builtin is
  modelled by the usual decimal rendering: a minus sign for negative numbers, then the
  digits of the absolute value, most significant first, without leading zeros.
\<close>

definition digit_char :: "nat \<Rightarrow> char" where
  "digit_char d = ''0123456789'' ! d"

fun digits :: "nat \<Rightarrow> string" where
  "digits n = (if n < 10 then [digit_char n] else digits (n div 10) @ [digit_char (n mod 10)])"

declare digits.simps [simp del]

definition str :: "int \<Rightarrow> string" where
  "str i = (if i < 0 then CHR ''-'' # digits (nat (- i)) else digits (nat i))"

section \<open>Output cells\<close>

text \<open>
  An \<^verbatim>\<open>mxGeometry\<close> child element. Vertex cells carry \<^verbatim>\<open>x, y, width, height\<close>;
  edge cells carry \<^verbatim>\<open>relative='1'\<close>. Both are marked \<^verbatim>\<open>as='geometry'\<close>.
  The source stores \<^verbatim>\<open>str(x)\<close> and \<^verbatim>\<open>str(y)\<close>; the model keeps the numbers. Python's
  \<^verbatim>\<open>/\<close> on integers is true division: the \<^verbatim>\<open>y\<close> coordinate is a fraction, modelled
  by an exact rational.
\<close>

datatype mxGeometry =
    Box (gx: int) (gy: rat) (gwidth: int) (gheight: int)
  | Relative

text \<open>
  An \<^verbatim>\<open>mxCell\<close> element: its XML attributes (\<open>None\<close> when the attribute is not set)
  and its geometry child.
\<close>

record mxCell =
  cid :: string
  cvalue :: "string option"
  cstyle :: "string option"
  cvertex :: "string option"
  cedge :: "string option"
  cparent :: "string option"
  csource :: "string option"
  ctarget :: "string option"
  cgeometry :: "mxGeometry option"

section \<open>Source topics, JSON encoding\<close>

text \<open>
  A topic dictionary of \<^verbatim>\<open>content.json\<close>, as far as the converter reads it:
  the key \<^verbatim>\<open>title\<close> (\<open>None\<close> when the key is absent) and, under \<^verbatim>\<open>children\<close>,
  the lists \<^verbatim>\<open>attached\<close> and \<^verbatim>\<open>callout\<close>. The source reads \<^verbatim>\<open>children\<close>,
  \<^verbatim>\<open>attached\<close> and \<^verbatim>\<open>callout\<close> with empty defaults, so an absent key is the empty list.
\<close>

datatype topic = Topic (title: "string option") (attached: "topic list") (callout: "topic list")

section \<open>DrawioGenerator\<close>

text \<open>The constants set in \<^verbatim>\<open>DrawioGenerator.__init__\<close>.\<close>

definition x_spacing :: int where "x_spacing = 250"
definition min_y_spacing :: int where "min_y_spacing = 120"
definition box_width :: int where "box_width = 120"
definition box_height :: int where "box_height = 60"
definition callout_width :: int where "callout_width = 200"
definition callout_height :: int where "callout_height = 60"
definition callout_offset_x :: int where "callout_offset_x = - 50"
definition callout_offset_y :: int where "callout_offset_y = - 80"
definition callout_spacing :: int where "callout_spacing = 70"

text \<open>
  The mutable part of a generator: the counter \<^verbatim>\<open>self.cell_id\<close> and the children of the
  \<^verbatim>\<open>root\<close> element that every \<^verbatim>\<open>ET.SubElement(parent, 'mxCell', ...)\<close> appends to
  (\<^verbatim>\<open>parent\<close> is that one element in every call).
\<close>

record generator =
  cell_id :: int
  root :: "mxCell list"

definition init_generator :: generator where
  "init_generator = \<lparr>cell_id = 2, root = []\<rparr>"

definition sub_element :: "mxCell \<Rightarrow> generator \<Rightarrow> generator" where
  "sub_element c g = g\<lparr>root := root g @ [c]\<rparr>"

definition root_style :: string where
  "root_style = ''rounded=1;whiteSpace=wrap;html=1;fillColor=#dae8fc;strokeColor=#6c8ebf;fontStyle=1;fontSize=14;''"

definition level1_style :: string where
  "level1_style = ''rounded=1;whiteSpace=wrap;html=1;fillColor=#dae8fc;strokeColor=#6c8ebf;fontSize=12;''"

definition deeper_style :: string where
  "deeper_style = ''rounded=1;whiteSpace=wrap;html=1;fillColor=#dae8fc;strokeColor=#6c8ebf;fontSize=11;''"

definition get_style :: "int \<Rightarrow> string" where
  "get_style level =
     (if level = 0 then root_style
      else if level = 1 then level1_style
      else deeper_style)"

definition callout_style :: string where
  "callout_style = ''shape=note;whiteSpace=wrap;html=1;fillColor=#fff2cc;strokeColor=#d6b656;fontSize=9;align=left;verticalAlign=top;spacing=8;spacingLeft=12;spacingRight=12;spacingTop=8;backgroundOutline=1;size=12;''"

definition connector_style :: string where
  "connector_style = ''edgeStyle=entityRelationEdgeStyle;rounded=1;orthogonalLoop=1;jettySize=auto;html=1;curved=1;strokeColor=#6c8ebf;strokeWidth=1;''"

definition dashed_style :: string where
  "dashed_style = ''edgeStyle=none;rounded=1;orthogonalLoop=1;jettySize=auto;html=1;dashed=1;strokeColor=#d6b656;strokeWidth=1;''"

subsection \<open>Subtree height\<close>

fun calculate_subtree_height :: "topic \<Rightarrow> int" where
  "calculate_subtree_height (Topic ttl attached_topics callout_topics) =
     (let base_height = min_y_spacing;
          base_height = (if callout_topics \<noteq> []
                         then base_height + int (length callout_topics) * callout_spacing
                         else base_height)
      in if attached_topics = [] then base_height
         else max (sum_list (map calculate_subtree_height attached_topics)) base_height)"

subsection \<open>Cell emission\<close>

definition vertex_cell :: "string \<Rightarrow> string \<Rightarrow> string \<Rightarrow> int \<Rightarrow> rat \<Rightarrow> int \<Rightarrow> int \<Rightarrow> mxCell" where
  "vertex_cell current_id ttl style x y w h =
     \<lparr>cid = current_id, cvalue = Some ttl, cstyle = Some style, cvertex = Some ''1'',
      cedge = None, cparent = Some ''1'', csource = None, ctarget = None,
      cgeometry = Some (Box x y w h)\<rparr>"

definition edge_cell :: "string \<Rightarrow> string \<Rightarrow> string \<Rightarrow> string \<Rightarrow> mxCell" where
  "edge_cell connector_id style source_id target_id =
     \<lparr>cid = connector_id, cvalue = Some '''', cstyle = Some style, cvertex = None,
      cedge = Some ''1'', cparent = Some ''1'', csource = Some source_id,
      ctarget = Some target_id, cgeometry = Some Relative\<rparr>"

definition create_connector :: "string \<Rightarrow> string \<Rightarrow> generator \<Rightarrow> generator" where
  "create_connector source_id target_id g =
     (let connector_id = str (cell_id g);
          g = g\<lparr>cell_id := cell_id g + 1\<rparr>
      in sub_element (edge_cell connector_id connector_style source_id target_id) g)"

definition convert_json_callout ::
  "topic \<Rightarrow> string \<Rightarrow> int \<Rightarrow> rat \<Rightarrow> generator \<Rightarrow> string \<times> generator" where
  "convert_json_callout callout_topic parent_id x y g =
     (let ttl = (case title callout_topic of None \<Rightarrow> '''' | Some t \<Rightarrow> t);
          current_id = str (cell_id g);
          g = g\<lparr>cell_id := cell_id g + 1\<rparr>;
          g = sub_element (vertex_cell current_id ttl callout_style x y callout_width callout_height) g;
          connector_id = str (cell_id g);
          g = g\<lparr>cell_id := cell_id g + 1\<rparr>;
          g = sub_element (edge_cell connector_id dashed_style parent_id current_id) g
      in (current_id, g))"

text \<open>
  The loop \<^verbatim>\<open>for idx, callout in enumerate(callout_topics)\<close> of
  \<^verbatim>\<open>_convert_json_topic\<close>; \<open>idx\<close> is the index of the head of the remaining list.
\<close>

fun json_callout_loop ::
  "topic list \<Rightarrow> int \<Rightarrow> string \<Rightarrow> int \<Rightarrow> rat \<Rightarrow> generator \<Rightarrow> generator" where
  "json_callout_loop [] idx current_id x y g = g"
| "json_callout_loop (callout_topic # rest) idx current_id x y g =
     (let callout_x = x + callout_offset_x;
          callout_y = y + of_int callout_offset_y - of_int (idx * callout_spacing);
          (callout_id, g) = convert_json_callout callout_topic current_id callout_x callout_y g
      in json_callout_loop rest (idx + 1) current_id x y g)"

text \<open>
  \<^verbatim>\<open>_convert_json_topic\<close>, with its loop \<^verbatim>\<open>for child_topic in attached_topics\<close> as the
  second function: the loop carries \<^verbatim>\<open>current_y\<close> and the generator.
\<close>

fun convert_json_topic ::
    "topic \<Rightarrow> string \<Rightarrow> int \<Rightarrow> rat \<Rightarrow> int \<Rightarrow> generator \<Rightarrow> string \<times> generator"
  and json_child_loop ::
    "topic list \<Rightarrow> string \<Rightarrow> int \<Rightarrow> int \<Rightarrow> rat \<Rightarrow> generator \<Rightarrow> rat \<times> generator" where
  "convert_json_topic (Topic ttl attached_topics callout_topics) parent_id x y level g =
     (let title_text = (case ttl of None \<Rightarrow> ''Topic'' | Some t \<Rightarrow> t);
          current_id = str (cell_id g);
          g = g\<lparr>cell_id := cell_id g + 1\<rparr>;
          g = sub_element (vertex_cell current_id title_text (get_style level) x y box_width box_height) g;
          g = (if attached_topics \<noteq> [] then
                 (let total_height = sum_list (map calculate_subtree_height attached_topics);
                      current_y = y - of_int total_height / 2
                  in snd (json_child_loop attached_topics current_id x level current_y g))
               else g);
          g = json_callout_loop callout_topics 0 current_id x y g
      in (current_id, g))"
| "json_child_loop [] current_id x level current_y g = (current_y, g)"
| "json_child_loop (child_topic # rest) current_id x level current_y g =
     (let child_height = calculate_subtree_height child_topic;
          child_x = x + x_spacing;
          child_y = current_y + of_int child_height / 2;
          (child_id, g) = convert_json_topic child_topic current_id child_x child_y (level + 1) g;
          g = create_connector current_id child_id g;
          current_y = current_y + of_int child_height
      in json_child_loop rest current_id x level current_y g)"

section \<open>Source topics, XML encoding\<close>

text \<open>
  An \<^verbatim>\<open>xml.etree.ElementTree.Element\<close> of \<^verbatim>\<open>content.xml\<close>: its qualified tag
  (\<^verbatim>\<open>{namespace}local\<close>), its text (\<open>None\<close> when the element has none) and its child
  elements in document order.
\<close>

datatype element = Element (etag: string) (etext: "string option") (elems: "element list")

text \<open>
  The prefix \<^verbatim>\<open>xmap:\<close> is resolved through \<^verbatim>\<open>XMindParser.namespaces\<close>, the only
  namespace dictionary ever passed.
\<close>

definition xmap :: "string \<Rightarrow> string" where
  "xmap local_name = ''{urn:xmind:xmap:xmlns:content:2.0}'' @ local_name"

text \<open>\<^verbatim>\<open>e.find(path)\<close> and \<^verbatim>\<open>e.findall(path)\<close> for a path that is one tag: the direct children.\<close>

definition et_find :: "string \<Rightarrow> element \<Rightarrow> element option" where
  "et_find path e = List.find (\<lambda>c. etag c = path) (elems e)"

definition et_findall :: "string \<Rightarrow> element \<Rightarrow> element list" where
  "et_findall path e = filter (\<lambda>c. etag c = path) (elems e)"

text \<open>
  The loop that collects \<^verbatim>\<open>child_topics\<close>: every \<^verbatim>\<open>topic\<close> element of every
  \<^verbatim>\<open>topics\<close> container under the \<^verbatim>\<open>children\<close> element.
\<close>

definition collect_child_topics :: "element \<Rightarrow> element list" where
  "collect_child_topics children =
     concat (map (et_findall (xmap ''topic'')) (et_findall (xmap ''topics'') children))"

lemma size_list_filter_le: "size_list f (filter P xs) \<le> size_list f xs"
  by (induction xs) auto

lemma size_list_elems: "size_list size (elems e) < size e"
  by (cases e) simp

lemma size_et_findall: "size_list size (et_findall p e) < size e"
  unfolding et_findall_def
  by (rule le_less_trans [OF size_list_filter_le size_list_elems])

lemma size_concat_findall:
  "size_list size (concat (map (et_findall p) xs)) \<le> size_list size xs"
proof (induction xs)
  case Nil
  then show ?case by simp
next
  case (Cons x xs)
  have "size_list size (et_findall p x) < size x"
    by (rule size_et_findall)
  with Cons show ?case by simp
qed

lemma size_collect_child_topics: "size_list size (collect_child_topics c) < size c"
  unfolding collect_child_topics_def
  by (rule le_less_trans [OF size_concat_findall size_et_findall])

lemma size_et_find: "et_find p e = Some c \<Longrightarrow> size c < size e"
proof -
  assume "et_find p e = Some c"
  then have "c \<in> set (elems e)"
    by (auto simp: et_find_def find_Some_iff)
  then have "size c \<le> size_list size (elems e)"
    by (induction "elems e" arbitrary: e) (auto simp: size_list_estimation')
  then show ?thesis
    using size_list_elems [of e] by simp
qed

lemma size_child_topics_of_find:
  "et_find p e = Some c \<Longrightarrow> size_list size (collect_child_topics c) < size e"
  using size_et_find [of p e c] size_collect_child_topics [of c] by simp

lemma size_member_list: "x \<in> set xs \<Longrightarrow> size x < Suc (size_list size xs)"
  by (induction xs) auto

function calculate_xml_subtree_height :: "element \<Rightarrow> int" where
  "calculate_xml_subtree_height topic =
     (case et_find (xmap ''children'') topic of
        None \<Rightarrow> min_y_spacing
      | Some children \<Rightarrow>
          (let child_topics = collect_child_topics children
           in if child_topics = [] then min_y_spacing
              else (let total_height = sum_list (map calculate_xml_subtree_height child_topics)
                    in max total_height min_y_spacing)))"
  by pat_completeness auto
termination
proof (relation "measure size")
  show "wf (measure size)" by simp
next
  fix topic children child_topics x
  assume "et_find (xmap ''children'') topic = Some children"
    and "child_topics = collect_child_topics children"
    and "x \<in> set child_topics"
  then show "(x, topic) \<in> measure size"
    using size_child_topics_of_find [of "xmap ''children''" topic children]
      size_member_list [of x child_topics] by simp
qed

declare calculate_xml_subtree_height.simps [simp del]

function convert_xml_topic ::
    "element \<Rightarrow> string \<Rightarrow> int \<Rightarrow> rat \<Rightarrow> int \<Rightarrow> generator \<Rightarrow> string \<times> generator"
  and xml_child_loop ::
    "element list \<Rightarrow> string \<Rightarrow> int \<Rightarrow> int \<Rightarrow> rat \<Rightarrow> generator \<Rightarrow> rat \<times> generator" where
  "convert_xml_topic topic parent_id x y level g =
     (let title_elem = et_find (xmap ''title'') topic;
          title_text = (case title_elem of
                          None \<Rightarrow> ''Topic''
                        | Some te \<Rightarrow> (case etext te of
                                       None \<Rightarrow> ''Topic''
                                     | Some t \<Rightarrow> if t = [] then ''Topic'' else t));
          current_id = str (cell_id g);
          g = g\<lparr>cell_id := cell_id g + 1\<rparr>;
          g = sub_element (vertex_cell current_id title_text (get_style level) x y box_width box_height) g;
          g = (case et_find (xmap ''children'') topic of
                 None \<Rightarrow> g
               | Some children \<Rightarrow>
                   (let child_topics = collect_child_topics children
                    in if child_topics \<noteq> [] then
                         (let total_height = sum_list (map calculate_xml_subtree_height child_topics);
                              current_y = y - of_int total_height / 2
                          in snd (xml_child_loop child_topics current_id x level current_y g))
                       else g))
      in (current_id, g))"
| "xml_child_loop [] current_id x level current_y g = (current_y, g)"
| "xml_child_loop (child_topic # rest) current_id x level current_y g =
     (let child_height = calculate_xml_subtree_height child_topic;
          child_x = x + x_spacing;
          child_y = current_y + of_int child_height / 2;
          (child_id, g) = convert_xml_topic child_topic current_id child_x child_y (level + 1) g;
          g = create_connector current_id child_id g;
          current_y = current_y + of_int child_height
      in xml_child_loop rest current_id x level current_y g)"
  by pat_completeness auto
termination
  by (relation "measure (\<lambda>v. case v of
         Inl (topic, _) \<Rightarrow> size topic
       | Inr (child_topics, _) \<Rightarrow> size_list size child_topics)")
     (auto simp: size_child_topics_of_find)

declare convert_xml_topic.simps [simp del]

subsection \<open>The output document\<close>

text \<open>
  The tree \<^verbatim>\<open>mxfile / diagram / mxGraphModel / root\<close>: the fixed attributes of the three
  wrapper elements and the cells under \<^verbatim>\<open>root\<close>.
\<close>

record mxfile =
  host :: string
  version :: string
  diagram_name :: string
  graph_model :: "(string \<times> string) list"
  cells :: "mxCell list"

text \<open>
  The value of \<^verbatim>\<open>root_topic: Any\<close>: a topic dictionary or a topic element. The flag
  \<^verbatim>\<open>is_json\<close> is a separate argument, as in the source.
\<close>

datatype root_topic = JsonTopic topic | XmlTopic element

datatype py_error = AttributeError | IllTypedCall

definition default_cell :: "string \<Rightarrow> string option \<Rightarrow> mxCell" where
  "default_cell ident par =
     \<lparr>cid = ident, cvalue = None, cstyle = None, cvertex = None, cedge = None,
      cparent = par, csource = None, ctarget = None, cgeometry = None\<rparr>"

definition wrap_mxfile :: "mxCell list \<Rightarrow> mxfile" where
  "wrap_mxfile cs =
     \<lparr>host = ''app.diagrams.net'', version = ''21.0.0'', diagram_name = ''Page-1'',
      graph_model = [(''dx'', ''1426''), (''dy'', ''782''), (''grid'', ''1''),
                     (''gridSize'', ''10''), (''guides'', ''1'')],
      cells = cs\<rparr>"

text \<open>
  \<^verbatim>\<open>create_drawio_xml\<close> on the generator \<open>g\<close> (its \<^verbatim>\<open>self\<close>); the \<^verbatim>\<open>root\<close> element is
  created here. A call whose flag does not match the value (XML functions on a
  dictionary, dictionary reads on an element) is ill-typed; \<^verbatim>\<open>convert_file\<close> never makes
  one, and the model returns \<open>Inl IllTypedCall\<close> for it.
\<close>

definition create_drawio_xml ::
  "generator \<Rightarrow> root_topic option \<Rightarrow> bool \<Rightarrow> py_error + mxfile" where
  "create_drawio_xml g root_topic is_json =
     (let g = g\<lparr>root := []\<rparr>;
          g = sub_element (default_cell ''0'' None) g;
          g = sub_element (default_cell ''1'' (Some ''0'')) g
      in case root_topic of
           None \<Rightarrow> Inr (wrap_mxfile (root g))
         | Some rt \<Rightarrow>
             if is_json then
               (case rt of
                  JsonTopic t \<Rightarrow>
                    Inr (wrap_mxfile (root (snd (convert_json_topic t ''1'' 400 300 0 g))))
                | XmlTopic e \<Rightarrow> Inl IllTypedCall)
             else
               (case rt of
                  XmlTopic e \<Rightarrow>
                    Inr (wrap_mxfile (root (snd (convert_xml_topic e ''1'' 400 300 0 g))))
                | JsonTopic t \<Rightarrow> Inl IllTypedCall))"

section \<open>XMindParser\<close>

text \<open>
  The parsed \<^verbatim>\<open>content.json\<close>, as far as \<^verbatim>\<open>get_root_topic\<close> reads it: JSON \<^verbatim>\<open>null\<close>
  (Python's \<^verbatim>\<open>None\<close>), an array, or a JSON value that is neither (an object, a number,
  a string, a boolean). An item of the array is a sheet dictionary with its \<^verbatim>\<open>rootTopic\<close>
  key (\<open>None\<close> when the key is absent or null, a topic dictionary otherwise), or a JSON
  value that is not a dictionary (a number, a string, an array, a boolean, \<^verbatim>\<open>null\<close>), which
  has no \<^verbatim>\<open>get\<close> method.
\<close>

datatype sheet = Sheet (rootTopic: "topic option") | NotADictionary

datatype json_document = JsonNull | JsonSheets "sheet list" | JsonOther

datatype raw_document = RawJson json_document | RawXml element

text \<open>
  An opened archive: its entries by name (\<^verbatim>\<open>namelist\<close> is the domain, \<^verbatim>\<open>read\<close> the
  lookup). Opening the archive on disk, \<^verbatim>\<open>json.loads\<close> and \<^verbatim>\<open>ET.fromstring\<close> belong to
  the environment and are parameters: each either raises (\<open>Inl\<close> with the text of the
  exception) or returns.

  So does \<^verbatim>\<open>tree.write(output_path, ...)\<close>, given the output path and the document: it
  writes the whole file, or raises before the file is opened (nothing is written), or
  raises in the middle of the serialisation (an I/O error, or a \<^verbatim>\<open>TypeError\<close> on an
  attribute value that is not a string), which leaves a truncated file behind.
\<close>

type_synonym archive = "string \<rightharpoonup> string"

datatype write_outcome = Written | RaisedBeforeOpen string | RaisedMidFile string

record environment =
  open_zip :: "string \<Rightarrow> string + archive"
  json_loads :: "string \<Rightarrow> string + json_document"
  et_fromstring :: "string \<Rightarrow> string + element"
  tree_write :: "string \<Rightarrow> mxfile \<Rightarrow> write_outcome"

text \<open>
  What \<^verbatim>\<open>parse\<close> leaves behind: the attribute \<^verbatim>\<open>is_json_format\<close>, the lines it
  printed, and its return value (\<open>None\<close> for Python's \<^verbatim>\<open>None\<close>).
\<close>

record parse_outcome =
  is_json_format :: bool
  printed :: "string list"
  returned :: "raw_document option"

definition parse_error :: "string \<Rightarrow> bool \<Rightarrow> string \<Rightarrow> parse_outcome" where
  "parse_error xmind_path flag e =
     \<lparr>is_json_format = flag,
      printed = [''Error parsing '' @ xmind_path @ '': '' @ e],
      returned = None\<rparr>"

definition parse :: "environment \<Rightarrow> string \<Rightarrow> parse_outcome" where
  "parse env xmind_path =
     (case open_zip env xmind_path of
        Inl e \<Rightarrow> parse_error xmind_path False e
      | Inr zip_file \<Rightarrow>
          (case zip_file ''content.json'' of
             Some content \<Rightarrow>
               (case json_loads env content of
                  Inl e \<Rightarrow> parse_error xmind_path True e
                | Inr doc \<Rightarrow>
                    \<lparr>is_json_format = True, printed = [],
                     returned = (if doc = JsonNull then None else Some (RawJson doc))\<rparr>)
           | None \<Rightarrow>
               (case zip_file ''content.xml'' of
                  Some content \<Rightarrow>
                    (case et_fromstring env content of
                       Inl e \<Rightarrow> parse_error xmind_path False e
                     | Inr doc \<Rightarrow>
                         \<lparr>is_json_format = False, printed = [], returned = Some (RawXml doc)\<rparr>)
                | None \<Rightarrow> \<lparr>is_json_format = False, printed = [], returned = None\<rparr>)))"

text \<open>
  \<^verbatim>\<open>root.find('.//xmap:sheet')\<close>: the descendants of an element in document order.
  In \<^verbatim>\<open>get_root_topic\<close>, \<^verbatim>\<open>first_sheet.get('rootTopic')\<close> raises \<^verbatim>\<open>AttributeError\<close> when
  the first item of the array is not a dictionary, and so does \<^verbatim>\<open>root.find\<close> on a parsed
  JSON document; \<^verbatim>\<open>convert_file\<close> does not catch either.
\<close>

fun descendants :: "element \<Rightarrow> element list" where
  "descendants (Element t x cs) = concat (map (\<lambda>c. c # descendants c) cs)"

definition get_root_topic :: "bool \<Rightarrow> raw_document \<Rightarrow> py_error + root_topic option" where
  "get_root_topic is_json r =
     (if is_json then
        (case r of
           RawJson (JsonSheets (first_sheet # rest)) \<Rightarrow>
             (case first_sheet of
                Sheet root_topic \<Rightarrow> Inr (map_option JsonTopic root_topic)
              | NotADictionary \<Rightarrow> Inl AttributeError)
         | _ \<Rightarrow> Inr None)
      else
        (case r of
           RawXml e \<Rightarrow>
             (case List.find (\<lambda>d. etag d = xmap ''sheet'') (descendants e) of
                Some sheet_elem \<Rightarrow> Inr (map_option XmlTopic (et_find (xmap ''topic'') sheet_elem))
              | None \<Rightarrow> Inr None)
         | RawJson d \<Rightarrow> Inl AttributeError))"

section \<open>XMindToDrawioConverter\<close>

text \<open>
  A path as \<^verbatim>\<open>convert_file\<close> uses it: the directory, the stem and the suffix of the
  file name.
\<close>

record path =
  directory :: string
  stem :: string
  suffix :: string

definition path_name :: "path \<Rightarrow> string" where
  "path_name p = stem p @ suffix p"

definition path_str :: "path \<Rightarrow> string" where
  "path_str p = directory p @ ''/'' @ path_name p"

text \<open>
  The effects of \<^verbatim>\<open>convert_file\<close>: the files on disk by output path, each the complete
  serialisation of a document or a truncated one, and the lines printed (without the blank
  line before \<^verbatim>\<open>Converting\<close> and the check mark before \<^verbatim>\<open>Saved to\<close>).
\<close>

datatype file_content = Complete mxfile | Truncated

record world =
  files :: "string \<rightharpoonup> file_content"
  stdout :: "string list"

definition print :: "string list \<Rightarrow> world \<Rightarrow> world" where
  "print ls w = w\<lparr>stdout := stdout w @ ls\<rparr>"

text \<open>
  \<^verbatim>\<open>convert_file\<close> returns, or an exception it does not catch leaves it: one raised by
  \<^verbatim>\<open>get_root_topic\<close> or \<^verbatim>\<open>create_drawio_xml\<close>, or one raised by the write. Either way the
  world is as the call left it.
\<close>

datatype uncaught = ConversionError py_error | WriteError string

datatype run = Returned world | Raised uncaught world

definition convert_file :: "environment \<Rightarrow> string \<Rightarrow> path \<Rightarrow> world \<Rightarrow> run" where
  "convert_file env output_dir xmind_path w =
     (let w = print [''Converting: '' @ path_name xmind_path] w;
          parser = parse env (path_str xmind_path);
          w = print (printed parser) w
      in case returned parser of
           None \<Rightarrow> Returned (print [''  Failed to parse '' @ path_name xmind_path] w)
         | Some r \<Rightarrow>
             (case get_root_topic (is_json_format parser) r of
                Inl err \<Rightarrow> Raised (ConversionError err) w
              | Inr None \<Rightarrow>
                  Returned (print [''  No root topic found in '' @ path_name xmind_path] w)
              | Inr (Some rt) \<Rightarrow>
                  (case create_drawio_xml init_generator (Some rt) (is_json_format parser) of
                     Inl err \<Rightarrow> Raised (ConversionError err) w
                   | Inr drawio_xml \<Rightarrow>
                       (let output_path = output_dir @ ''/'' @ stem xmind_path @ ''.drawio''
                        in case tree_write env output_path drawio_xml of
                             Written \<Rightarrow>
                               (let w = w\<lparr>files := (files w)(output_path \<mapsto> Complete drawio_xml)\<rparr>
                                in Returned (print [''  Saved to: '' @ output_path] w))
                           | RaisedBeforeOpen e \<Rightarrow> Raised (WriteError e) w
                           | RaisedMidFile e \<Rightarrow>
                               Raised (WriteError e)
                                 (w\<lparr>files := (files w)(output_path \<mapsto> Truncated)\<rparr>)))))"

section \<open>The source tree and what a conversion emits\<close>

text \<open>
  The uniform topic view of an XML topic: its title with the placeholder applied, its
  child topics as attached children, and no callouts. \<open>view\<close> is the source tree a root
  topic stands for: a JSON topic itself, an XML topic through its uniform view.
\<close>

definition xml_title :: "element \<Rightarrow> string" where
  "xml_title topic =
     (case et_find (xmap ''title'') topic of
        None \<Rightarrow> ''Topic''
      | Some te \<Rightarrow> (case etext te of
                     None \<Rightarrow> ''Topic''
                   | Some t \<Rightarrow> if t = [] then ''Topic'' else t))"

definition xml_attached :: "element \<Rightarrow> element list" where
  "xml_attached topic =
     (case et_find (xmap ''children'') topic of
        None \<Rightarrow> []
      | Some children \<Rightarrow> collect_child_topics children)"

lemma size_xml_attached: "c \<in> set (xml_attached e) \<Longrightarrow> size c < size e"
  using size_member_list [of c "xml_attached e"]
  by (auto simp: xml_attached_def split: option.splits dest: size_child_topics_of_find)

function normalized_view :: "element \<Rightarrow> topic" where
  "normalized_view e = Topic (Some (xml_title e)) (map normalized_view (xml_attached e)) []"
  by pat_completeness auto
termination
  by (relation "measure size") (auto simp: size_xml_attached)

declare normalized_view.simps [simp del]

definition view :: "root_topic \<Rightarrow> topic" where
  "view rt = (case rt of JsonTopic t \<Rightarrow> t | XmlTopic e \<Rightarrow> normalized_view e)"


fun count_callouts :: "topic \<Rightarrow> nat" where
  "count_callouts (Topic ttl attached_topics callout_topics) =
     length callout_topics + sum_list (map count_callouts attached_topics)"


text \<open>
  The cells one conversion appends, obtained by running it on an empty \<^verbatim>\<open>root\<close> element
  with the counter at \<open>n\<close>, and their number for a JSON topic: one vertex, for each attached
  child its cells and one connector, two cells for each callout.
\<close>

definition emitted_json :: "topic \<Rightarrow> string \<Rightarrow> int \<Rightarrow> rat \<Rightarrow> int \<Rightarrow> int \<Rightarrow> mxCell list" where
  "emitted_json t parent_id x y level n =
     root (snd (convert_json_topic t parent_id x y level \<lparr>cell_id = n, root = []\<rparr>))"

definition emitted_xml :: "element \<Rightarrow> string \<Rightarrow> int \<Rightarrow> rat \<Rightarrow> int \<Rightarrow> int \<Rightarrow> mxCell list" where
  "emitted_xml e parent_id x y level n =
     root (snd (convert_xml_topic e parent_id x y level \<lparr>cell_id = n, root = []\<rparr>))"

fun json_cell_count :: "topic \<Rightarrow> nat" where
  "json_cell_count (Topic ttl attached_topics callout_topics) =
     1 + sum_list (map (\<lambda>c. json_cell_count c + 1) attached_topics) + 2 * length callout_topics"

text \<open>
  The display text of a topic vertex and of a callout vertex on the JSON path.
\<close>

definition topic_title :: "topic \<Rightarrow> string" where
  "topic_title t = (case title t of None \<Rightarrow> ''Topic'' | Some s \<Rightarrow> s)"

definition callout_title :: "topic \<Rightarrow> string" where
  "callout_title t = (case title t of None \<Rightarrow> '''' | Some s \<Rightarrow> s)"

text \<open>
  The layout of the attached children of a topic at \<open>x\<close>, level \<open>level\<close> and id
  \<open>current_id\<close>, from a cursor: each child in order is converted at
  \<open>(x + 250, cursor + height / 2)\<close> one level deeper, its connector follows, and the rest is
  laid out from the cursor advanced by the child's subtree height.
\<close>

fun child_cells :: "topic list \<Rightarrow> string \<Rightarrow> int \<Rightarrow> int \<Rightarrow> rat \<Rightarrow> int \<Rightarrow> mxCell list" where
  "child_cells [] current_id x level cursor n = []"
| "child_cells (c # rest) current_id x level cursor n =
     emitted_json c current_id (x + 250) (cursor + of_int (calculate_subtree_height c) / 2) (level + 1) n
     @ [edge_cell (str (n + int (json_cell_count c))) connector_style current_id (str n)]
     @ child_cells rest current_id x level (cursor + of_int (calculate_subtree_height c))
         (n + int (json_cell_count c) + 1)"

fun xml_child_cells :: "element list \<Rightarrow> string \<Rightarrow> int \<Rightarrow> int \<Rightarrow> rat \<Rightarrow> int \<Rightarrow> mxCell list" where
  "xml_child_cells [] current_id x level cursor n = []"
| "xml_child_cells (c # rest) current_id x level cursor n =
     (let subtree = emitted_xml c current_id (x + 250)
                      (cursor + of_int (calculate_xml_subtree_height c) / 2) (level + 1) n;
          m = n + int (length subtree)
      in subtree
         @ [edge_cell (str m) connector_style current_id (str n)]
         @ xml_child_cells rest current_id x level
             (cursor + of_int (calculate_xml_subtree_height c)) (m + 1))"

text \<open>
  The layout of the callouts of a topic at \<open>(x, y)\<close>, from index \<open>idx\<close>: the callout with
  index \<open>i\<close> is a note of 200 by 60 at \<open>(x - 50, y - 80 - i * 70)\<close>, followed by its dashed
  connector from the topic.
\<close>

fun callout_cells :: "topic list \<Rightarrow> int \<Rightarrow> string \<Rightarrow> int \<Rightarrow> rat \<Rightarrow> int \<Rightarrow> mxCell list" where
  "callout_cells [] idx current_id x y n = []"
| "callout_cells (c # rest) idx current_id x y n =
     [vertex_cell (str n) (callout_title c) callout_style (x - 50) (y - 80 - of_int idx * 70) 200 60,
      edge_cell (str (n + 1)) dashed_style current_id (str n)]
     @ callout_cells rest (idx + 1) current_id x y (n + 2)"

text \<open>
  The four kinds of generated cells, told apart by the \<^verbatim>\<open>vertex\<close> or \<^verbatim>\<open>edge\<close> attribute
  and the style; the two structural cells are of neither kind.
\<close>

datatype cell_kind = TopicVertex | StructuralConnector | CalloutVertex | DashedConnector | OtherCell

definition cell_kind_of :: "mxCell \<Rightarrow> cell_kind" where
  "cell_kind_of c =
     (if cvertex c = Some ''1'' \<and> cstyle c \<in> {Some root_style, Some level1_style, Some deeper_style}
        then TopicVertex
      else if cvertex c = Some ''1'' \<and> cstyle c = Some callout_style then CalloutVertex
      else if cedge c = Some ''1'' \<and> cstyle c = Some connector_style then StructuralConnector
      else if cedge c = Some ''1'' \<and> cstyle c = Some dashed_style then DashedConnector
      else OtherCell)"

text \<open>
  Two orders of id assignment, as lists of kinds. \<open>emission_order\<close>: the vertex of the
  topic, then for each attached child its whole subtree followed by the connector to it,
  then each callout vertex followed by its dashed connector. \<open>claimed_id_order\<close>, after the
  specification's sentence: the vertex of the topic, its connector if it has a parent, its
  callouts with their dashed connectors, then the subtrees of its attached children.
\<close>

fun emission_order :: "topic \<Rightarrow> cell_kind list" where
  "emission_order (Topic ttl attached_topics callout_topics) =
     TopicVertex
     # concat (map (\<lambda>c. emission_order c @ [StructuralConnector]) attached_topics)
     @ concat (map (\<lambda>c. [CalloutVertex, DashedConnector]) callout_topics)"

fun claimed_id_order :: "bool \<Rightarrow> topic \<Rightarrow> cell_kind list" where
  "claimed_id_order has_parent (Topic ttl attached_topics callout_topics) =
     [TopicVertex]
     @ (if has_parent then [StructuralConnector] else [])
     @ concat (map (\<lambda>c. [CalloutVertex, DashedConnector]) callout_topics)
     @ concat (map (claimed_id_order True) attached_topics)"

text \<open>
  The decimal ids \<open>n, n + 1, ..., n + k - 1\<close>.
\<close>

definition id_range :: "int \<Rightarrow> nat \<Rightarrow> string list" where
  "id_range n k = map (\<lambda>i. str (n + int i)) [0..<k]"

subsection \<open>Worked examples\<close>

text \<open>
  A JSON root topic with two attached children, the first with a child without a title and
  a callout, and the document expected for it; an XML root topic with two children, the first
  with an empty title element, and its document.
\<close>

definition example_topic :: topic where
  "example_topic =
     Topic (Some ''Root'')
       [Topic (Some ''A'') [Topic None [] []] [Topic (Some ''note'') [] []],
        Topic (Some ''C'') [] []]
       []"

definition example_document :: mxfile where
  "example_document = wrap_mxfile
     [default_cell ''0'' None,
      default_cell ''1'' (Some ''0''),
      vertex_cell ''2'' ''Root'' root_style 400 300 120 60,
      vertex_cell ''3'' ''A'' level1_style 650 240 120 60,
      vertex_cell ''4'' ''Topic'' deeper_style 900 240 120 60,
      edge_cell ''5'' connector_style ''3'' ''4'',
      vertex_cell ''6'' ''note'' callout_style 600 160 200 60,
      edge_cell ''7'' dashed_style ''3'' ''6'',
      edge_cell ''8'' connector_style ''2'' ''3'',
      vertex_cell ''9'' ''C'' level1_style 650 395 120 60,
      edge_cell ''10'' connector_style ''2'' ''9'']"

definition example_element :: element where
  "example_element =
     Element (xmap ''topic'') None
       [Element (xmap ''title'') (Some ''X'') [],
        Element (xmap ''children'') None
          [Element (xmap ''topics'') None
             [Element (xmap ''topic'') None [Element (xmap ''title'') None []],
              Element (xmap ''topic'') None [Element (xmap ''title'') (Some ''Y'') []]]]]"

definition example_xml_document :: mxfile where
  "example_xml_document = wrap_mxfile
     [default_cell ''0'' None,
      default_cell ''1'' (Some ''0''),
      vertex_cell ''2'' ''X'' root_style 400 300 120 60,
      vertex_cell ''3'' ''Topic'' level1_style 650 240 120 60,
      edge_cell ''4'' connector_style ''2'' ''3'',
      vertex_cell ''5'' ''Y'' level1_style 650 360 120 60,
      edge_cell ''6'' connector_style ''2'' ''5'']"

text \<open>
  An environment with six archives: both payload entries, only \<^verbatim>\<open>content.xml\<close>, neither
  entry, a \<^verbatim>\<open>content.json\<close> that does not parse, a \<^verbatim>\<open>content.json\<close> holding an
  empty array of sheets, and one holding the array \<^verbatim>\<open>[1]\<close>. Any other path cannot be
  opened. Writing succeeds, except under the directory \<^verbatim>\<open>full\<close>, where it stops in the
  middle of the file.
\<close>

definition example_xml_root :: element where
  "example_xml_root =
     Element (xmap ''xmap-content'') None
       [Element (xmap ''sheet'') None
          [example_element, Element (xmap ''title'') (Some ''Sheet 1'') []]]"

definition example_environment :: environment where
  "example_environment =
     \<lparr>open_zip = (\<lambda>p.
        if p = ''in/new.xmind'' then Inr [''content.json'' \<mapsto> ''J'', ''content.xml'' \<mapsto> ''X'']
        else if p = ''in/old.xmind'' then Inr [''content.xml'' \<mapsto> ''X'']
        else if p = ''in/plain.xmind'' then Inr [''meta.xml'' \<mapsto> ''M'']
        else if p = ''in/corrupt.xmind'' then Inr [''content.json'' \<mapsto> ''{'']
        else if p = ''in/norootjson.xmind'' then Inr [''content.json'' \<mapsto> ''[]'']
        else if p = ''in/notadict.xmind'' then Inr [''content.json'' \<mapsto> ''[1]'']
        else Inl ''No such file''),
      json_loads = (\<lambda>b.
        if b = ''J'' then Inr (JsonSheets [Sheet (Some example_topic)])
        else if b = ''[]'' then Inr (JsonSheets [])
        else if b = ''[1]'' then Inr (JsonSheets [NotADictionary])
        else Inl ''Expecting property name''),
      et_fromstring = (\<lambda>b.
        if b = ''X'' then Inr example_xml_root else Inl ''syntax error''),
      tree_write = (\<lambda>output_path doc.
        if take 5 output_path = ''full/'' then RaisedMidFile ''No space left on device''
        else Written)\<rparr>"

definition xmind_file :: "string \<Rightarrow> path" where
  "xmind_file name = \<lparr>directory = ''in'', stem = name, suffix = ''.xmind''\<rparr>"

definition empty_world :: world where
  "empty_world = \<lparr>files = Map.empty, stdout = []\<rparr>"

section \<open>Decimal identifiers are injective\<close>

lemma digit_cases:
  "d < 10 \<Longrightarrow> d = 0 \<or> d = 1 \<or> d = 2 \<or> d = 3 \<or> d = 4 \<or> d = 5 \<or> d = 6 \<or> d = 7 \<or> d = 8 \<or> d = (9::nat)"
  by arith

lemma digit_char_inj:
  assumes "a < 10" and "b < 10" and "digit_char a = digit_char b"
  shows "a = b"
proof -
  note A = digit_cases [OF assms(1)] and B = digit_cases [OF assms(2)]
  from A B assms(3) show ?thesis
    by (elim disjE) (simp_all add: digit_char_def)
qed

lemma digits_nonempty: "digits n \<noteq> []"
  by (subst digits.simps) simp

lemma digits_inj: "digits n = digits m \<Longrightarrow> n = m"
proof (induction n arbitrary: m rule: digits.induct)
  case (1 n)
  show ?case
  proof (cases "n < 10")
    case True
    then have dn: "digits n = [digit_char n]" by (subst digits.simps) simp
    show ?thesis
    proof (cases "m < 10")
      case True
      then have "digits m = [digit_char m]" by (subst digits.simps) simp
      with dn "1.prems" have "digit_char n = digit_char m" by simp
      with \<open>n < 10\<close> \<open>m < 10\<close> show ?thesis by (rule digit_char_inj)
    next
      case False
      then have "digits m = digits (m div 10) @ [digit_char (m mod 10)]"
        by (subst digits.simps) simp
      with dn "1.prems" digits_nonempty [of "m div 10"] show ?thesis
        by (cases "digits (m div 10)") auto
    qed
  next
    case False
    then have dn: "digits n = digits (n div 10) @ [digit_char (n mod 10)]"
      by (subst digits.simps) simp
    show ?thesis
    proof (cases "m < 10")
      case True
      then have "digits m = [digit_char m]" by (subst digits.simps) simp
      with dn "1.prems" digits_nonempty [of "n div 10"] show ?thesis
        by (cases "digits (n div 10)") auto
    next
      case m: False
      then have "digits m = digits (m div 10) @ [digit_char (m mod 10)]"
        by (subst digits.simps) simp
      with dn "1.prems" have e1: "digits (n div 10) = digits (m div 10)"
        and e2: "digit_char (n mod 10) = digit_char (m mod 10)" by simp_all
      from "1.IH" [OF False e1] have "n div 10 = m div 10" .
      moreover from e2 have "n mod 10 = m mod 10" by (intro digit_char_inj) simp_all
      ultimately show ?thesis by (metis div_mult_mod_eq)
    qed
  qed
qed

lemma str_inj: "0 \<le> a \<Longrightarrow> 0 \<le> b \<Longrightarrow> str a = str b \<Longrightarrow> a = b"
  using digits_inj [of "nat a" "nat b"] by (simp add: str_def)

lemma str_0: "str 0 = ''0''"
  by (simp add: str_def digits.simps digit_char_def)

lemma str_1: "str 1 = ''1''"
  by (simp add: str_def digits.simps digit_char_def)

lemma id_range_0 [simp]: "id_range n 0 = []"
  by (simp add: id_range_def)

lemma id_range_add: "id_range n (a + b) = id_range n a @ id_range (n + int a) b"
proof -
  have "[0..<a + b] = [0..<a] @ [a..<a + b]"
    using upt_add_eq_append [of 0 a b] by simp
  moreover have "[a..<a + b] = map (\<lambda>i. i + a) [0..<b]"
    using map_add_upt [of a b] by (simp add: add.commute)
  ultimately have split: "[0..<a + b] = [0..<a] @ map (\<lambda>i. i + a) [0..<b]"
    by simp
  have shift: "n + int (i + a) = n + int a + int i" for i
    by simp
  show ?thesis
    unfolding id_range_def split map_append map_map o_def shift ..
qed

lemma id_range_1: "id_range n (Suc 0) = [str n]"
  by (simp add: id_range_def)

lemma id_range_Cons: "id_range n (Suc k) = str n # id_range (n + 1) k"
  using id_range_add [of n 1 k] by (simp add: id_range_1)

lemma length_id_range [simp]: "length (id_range n k) = k"
  by (simp add: id_range_def)

lemma distinct_id_range:
  assumes "0 \<le> n"
  shows "distinct (id_range n k)"
proof -
  have "inj_on (\<lambda>i. str (n + int i)) (set [0..<k])"
  proof (rule inj_onI)
    fix a b
    assume "str (n + int a) = str (n + int b)"
    with assms have "n + int a = n + int b"
      by (intro str_inj) simp_all
    then show "a = b" by simp
  qed
  then show ?thesis
    unfolding id_range_def by (simp add: distinct_map)
qed

lemma reserved_not_in_id_range:
  assumes "2 \<le> n"
  shows "''0'' \<notin> set (id_range n k)" and "''1'' \<notin> set (id_range n k)"
proof -
  have ne0: "str (n + int i) \<noteq> ''0''" for i
  proof
    assume "str (n + int i) = ''0''"
    then have "str (n + int i) = str 0" by (simp add: str_0)
    with assms have "n + int i = 0" by (intro str_inj) simp_all
    with assms show False by simp
  qed
  have ne1: "str (n + int i) \<noteq> ''1''" for i
  proof
    assume "str (n + int i) = ''1''"
    then have "str (n + int i) = str 1" by (simp add: str_1)
    with assms have "n + int i = 1" by (intro str_inj) simp_all
    with assms show False by simp
  qed
  show "''0'' \<notin> set (id_range n k)"
  proof
    assume "''0'' \<in> set (id_range n k)"
    then obtain i where "str (n + int i) = ''0''"
      by (auto simp: id_range_def)
    with ne0 [of i] show False by simp
  qed
  show "''1'' \<notin> set (id_range n k)"
  proof
    assume "''1'' \<in> set (id_range n k)"
    then obtain i where "str (n + int i) = ''1''"
      by (auto simp: id_range_def)
    with ne1 [of i] show False by simp
  qed
qed

section \<open>The cells of one conversion\<close>

subsection \<open>Conversion appends the emitted cells and advances the counter\<close>

lemma json_callout_loop_frame:
  "json_callout_loop cs idx current_id x y g =
     g\<lparr>cell_id := cell_id g + 2 * int (length cs),
       root := root g @ callout_cells cs idx current_id x y (cell_id g)\<rparr>"
proof (induction cs arbitrary: idx g)
  case Nil
  show ?case by simp
next
  case (Cons c cs)
  show ?case
    by (simp add: Cons.IH convert_json_callout_def sub_element_def callout_title_def
        callout_offset_x_def callout_offset_y_def callout_spacing_def callout_width_def
        callout_height_def Let_def algebra_simps)
qed

lemma json_child_loop_frame:
  assumes "\<forall>c\<in>set cs. \<forall>parent_id x y level g.
     convert_json_topic c parent_id x y level g =
       (str (cell_id g),
        g\<lparr>cell_id := cell_id g + int (json_cell_count c),
          root := root g @ emitted_json c parent_id x y level (cell_id g)\<rparr>)"
  shows "json_child_loop cs current_id x level cursor g =
     (cursor + of_int (sum_list (map calculate_subtree_height cs)),
      g\<lparr>cell_id := cell_id g + int (sum_list (map (\<lambda>c. json_cell_count c + 1) cs)),
        root := root g @ child_cells cs current_id x level cursor (cell_id g)\<rparr>)"
  using assms
proof (induction cs arbitrary: cursor g)
  case Nil
  show ?case by simp
next
  case (Cons c cs)
  have head: "convert_json_topic c parent_id x y level g =
       (str (cell_id g),
        g\<lparr>cell_id := cell_id g + int (json_cell_count c),
          root := root g @ emitted_json c parent_id x y level (cell_id g)\<rparr>)"
    for parent_id x y level g
    using Cons.prems by simp
  have tail: "json_child_loop cs current_id x level cursor g =
     (cursor + of_int (sum_list (map calculate_subtree_height cs)),
      g\<lparr>cell_id := cell_id g + int (sum_list (map (\<lambda>c. json_cell_count c + 1) cs)),
        root := root g @ child_cells cs current_id x level cursor (cell_id g)\<rparr>)"
    for cursor g
    using Cons.prems by (intro Cons.IH) simp
  show ?case
    by (simp add: head tail create_connector_def sub_element_def x_spacing_def Let_def
        algebra_simps)
qed

lemma convert_json_topic_unfold:
  assumes "\<forall>c\<in>set (attached t). \<forall>parent_id x y level g.
     convert_json_topic c parent_id x y level g =
       (str (cell_id g),
        g\<lparr>cell_id := cell_id g + int (json_cell_count c),
          root := root g @ emitted_json c parent_id x y level (cell_id g)\<rparr>)"
  shows "convert_json_topic t parent_id x y level g =
     (str (cell_id g),
      g\<lparr>cell_id := cell_id g + int (json_cell_count t),
        root := root g @
          vertex_cell (str (cell_id g)) (topic_title t) (get_style level) x y 120 60
          # child_cells (attached t) (str (cell_id g)) x level
              (y - of_int (sum_list (map calculate_subtree_height (attached t))) / 2)
              (cell_id g + 1)
          @ callout_cells (callout t) 0 (str (cell_id g)) x y
              (cell_id g + 1 + int (sum_list (map (\<lambda>c. json_cell_count c + 1) (attached t))))\<rparr>)"
proof (cases t)
  case (Topic ttl att cal)
  with assms have kids: "json_child_loop att current_id x level cursor g =
     (cursor + of_int (sum_list (map calculate_subtree_height att)),
      g\<lparr>cell_id := cell_id g + int (sum_list (map (\<lambda>c. json_cell_count c + 1) att)),
        root := root g @ child_cells att current_id x level cursor (cell_id g)\<rparr>)"
    for current_id x level cursor g
    by (intro json_child_loop_frame) simp
  show ?thesis
    unfolding Topic
    by (cases "att = []")
      (simp_all add: kids json_callout_loop_frame sub_element_def topic_title_def
        box_width_def box_height_def Let_def algebra_simps)
qed

lemma convert_json_topic_frame:
  "convert_json_topic t parent_id x y level g =
     (str (cell_id g),
      g\<lparr>cell_id := cell_id g + int (json_cell_count t),
        root := root g @ emitted_json t parent_id x y level (cell_id g)\<rparr>)"
proof (induction t arbitrary: parent_id x y level g)
  case (Topic ttl att cal)
  have kids: "\<forall>c\<in>set (attached (Topic ttl att cal)). \<forall>parent_id x y level g.
     convert_json_topic c parent_id x y level g =
       (str (cell_id g),
        g\<lparr>cell_id := cell_id g + int (json_cell_count c),
          root := root g @ emitted_json c parent_id x y level (cell_id g)\<rparr>)"
    by (simp add: Topic.IH(1))
  note U = convert_json_topic_unfold [OF kids]
  show ?case
    unfolding emitted_json_def U by simp
qed

lemma emitted_json_unfold:
  "emitted_json t parent_id x y level n =
     vertex_cell (str n) (topic_title t) (get_style level) x y 120 60
     # child_cells (attached t) (str n) x level
         (y - of_int (sum_list (map calculate_subtree_height (attached t))) / 2) (n + 1)
     @ callout_cells (callout t) 0 (str n) x y
         (n + 1 + int (sum_list (map (\<lambda>c. json_cell_count c + 1) (attached t))))"
  unfolding emitted_json_def
  by (subst convert_json_topic_unfold) (simp_all add: convert_json_topic_frame)

lemma json_layout:
  "root (snd (convert_json_topic t parent_id x y level g)) =
     root g
     @ vertex_cell (str (cell_id g)) (topic_title t) (get_style level) x y 120 60
     # child_cells (attached t) (str (cell_id g)) x level
         (y - of_int (sum_list (map calculate_subtree_height (attached t))) / 2)
         (cell_id g + 1)
     @ callout_cells (callout t) 0 (str (cell_id g)) x y
         (cell_id g + 1 + int (sum_list (map (\<lambda>c. json_cell_count c + 1) (attached t))))"
  by (simp add: convert_json_topic_frame emitted_json_unfold del: convert_json_topic.simps)

subsection \<open>The XML conversion is the JSON conversion of the uniform view\<close>

lemma xml_height_normalized:
  "calculate_xml_subtree_height e = calculate_subtree_height (normalized_view e)"
proof (induction e rule: measure_induct_rule [of size])
  case (less e)
  have "map calculate_xml_subtree_height (xml_attached e) =
      map (calculate_subtree_height \<circ> normalized_view) (xml_attached e)"
    by (rule map_cong) (simp_all add: less.IH size_xml_attached)
  then have kids: "sum_list (map calculate_xml_subtree_height (xml_attached e)) =
      sum_list (map (calculate_subtree_height \<circ> normalized_view) (xml_attached e))"
    by (rule arg_cong)
  show ?case
  proof (cases "et_find (xmap ''children'') e")
    case None
    then show ?thesis
      by (subst calculate_xml_subtree_height.simps, subst normalized_view.simps)
        (simp add: xml_attached_def)
  next
    case (Some children)
    then have att: "xml_attached e = collect_child_topics children"
      by (simp add: xml_attached_def)
    show ?thesis
      by (subst calculate_xml_subtree_height.simps, subst normalized_view.simps)
        (simp add: Some kids [unfolded att] att Let_def max.commute)
  qed
qed

lemma xml_child_loop_normalized:
  assumes "\<forall>c\<in>set cs. \<forall>parent_id x y level g.
     convert_xml_topic c parent_id x y level g =
       convert_json_topic (normalized_view c) parent_id x y level g"
  shows "xml_child_loop cs current_id x level cursor g =
     json_child_loop (map normalized_view cs) current_id x level cursor g"
  using assms
proof (induction cs arbitrary: cursor g)
  case Nil
  show ?case by simp
next
  case (Cons c cs)
  have head: "convert_xml_topic c parent_id x y level g =
       convert_json_topic (normalized_view c) parent_id x y level g"
    for parent_id x y level g
    using Cons.prems by simp
  have tail: "xml_child_loop cs current_id x level cursor g =
     json_child_loop (map normalized_view cs) current_id x level cursor g"
    for cursor g
    using Cons.prems by (intro Cons.IH) simp
  show ?case
    by (simp add: head tail xml_height_normalized Let_def del: convert_json_topic.simps)
qed

lemma convert_xml_topic_normalized:
  "convert_xml_topic e parent_id x y level g =
     convert_json_topic (normalized_view e) parent_id x y level g"
proof (induction e arbitrary: parent_id x y level g rule: measure_induct_rule [of size])
  case (less e)
  have "\<forall>c\<in>set (xml_attached e). \<forall>parent_id x y level g.
     convert_xml_topic c parent_id x y level g =
       convert_json_topic (normalized_view c) parent_id x y level g"
    by (simp add: less.IH size_xml_attached)
  then have loop: "xml_child_loop (xml_attached e) current_id x level cursor g =
     json_child_loop (map normalized_view (xml_attached e)) current_id x level cursor g"
    for current_id x level cursor g
    by (rule xml_child_loop_normalized)
  have "map calculate_xml_subtree_height (xml_attached e) =
      map (calculate_subtree_height \<circ> normalized_view) (xml_attached e)"
    by (simp add: xml_height_normalized)
  then have heights: "sum_list (map calculate_xml_subtree_height (xml_attached e)) =
      sum_list (map (calculate_subtree_height \<circ> normalized_view) (xml_attached e))"
    by (rule arg_cong)
  show ?case
  proof (cases "et_find (xmap ''children'') e")
    case None
    then show ?thesis
      by (subst convert_xml_topic.simps, subst normalized_view.simps)
        (simp add: xml_attached_def xml_title_def Let_def)
  next
    case (Some children)
    then have att: "xml_attached e = collect_child_topics children"
      by (simp add: xml_attached_def)
    show ?thesis
      by (subst convert_xml_topic.simps, subst normalized_view.simps)
        (simp add: Some att loop [unfolded att] heights [unfolded att] xml_title_def Let_def)
  qed
qed

lemma callout_normalized_view: "callout (normalized_view e) = []"
  by (subst normalized_view.simps) simp

lemma attached_normalized_view: "attached (normalized_view e) = map normalized_view (xml_attached e)"
  by (subst normalized_view.simps) simp

lemma topic_title_normalized_view: "topic_title (normalized_view e) = xml_title e"
  by (subst normalized_view.simps) (simp add: topic_title_def)

lemma heights_normalized_view:
  "map calculate_subtree_height (attached (normalized_view e)) =
     map calculate_xml_subtree_height (xml_attached e)"
  by (simp add: attached_normalized_view xml_height_normalized)

lemma count_callouts_normalized_view: "count_callouts (normalized_view e) = 0"
proof (induction e rule: measure_induct_rule [of size])
  case (less e)
  have "map (count_callouts \<circ> normalized_view) (xml_attached e) = map (\<lambda>c. 0) (xml_attached e)"
    by (rule map_cong) (simp_all add: less.IH size_xml_attached)
  then have "sum_list (map (count_callouts \<circ> normalized_view) (xml_attached e)) =
      sum_list (map (\<lambda>c. 0) (xml_attached e))"
    by (rule arg_cong)
  then show ?case
    by (subst normalized_view.simps) simp
qed

lemma emitted_xml_normalized:
  "emitted_xml e parent_id x y level n = emitted_json (normalized_view e) parent_id x y level n"
  by (simp add: emitted_xml_def emitted_json_def convert_xml_topic_normalized
      del: convert_json_topic.simps)

subsection \<open>Ids, kinds and parents of the emitted cells\<close>

lemma ids_callout_cells:
  "map cid (callout_cells cs idx current_id x y n) = id_range n (2 * length cs)"
proof (induction cs arbitrary: idx n)
  case Nil
  show ?case by simp
next
  case (Cons c cs)
  have "2 * length (c # cs) = Suc (Suc (2 * length cs))" by simp
  then have "id_range n (2 * length (c # cs)) =
      str n # str (n + 1) # id_range (n + 1 + 1) (2 * length cs)"
    by (simp only: id_range_Cons)
  also have "n + 1 + 1 = n + 2" by simp
  finally show ?case
    by (simp add: Cons.IH vertex_cell_def edge_cell_def)
qed

lemma ids_child_cells:
  assumes "\<forall>c\<in>set cs. \<forall>parent_id x y level n.
     map cid (emitted_json c parent_id x y level n) = id_range n (json_cell_count c)"
  shows "map cid (child_cells cs current_id x level cursor n) =
     id_range n (sum_list (map (\<lambda>c. json_cell_count c + 1) cs))"
  using assms
proof (induction cs arbitrary: cursor n)
  case Nil
  show ?case by simp
next
  case (Cons c cs)
  let ?k = "sum_list (map (\<lambda>c. json_cell_count c + 1) cs)"
  have head: "map cid (emitted_json c parent_id x y level n) = id_range n (json_cell_count c)"
    for parent_id x y level n
    using Cons.prems by simp
  have tail: "map cid (child_cells cs current_id x level cursor n) = id_range n ?k"
    for cursor n
    using Cons.prems by (intro Cons.IH) simp
  have "sum_list (map (\<lambda>c. json_cell_count c + 1) (c # cs)) = json_cell_count c + Suc ?k"
    by simp
  then have "id_range n (sum_list (map (\<lambda>c. json_cell_count c + 1) (c # cs))) =
      id_range n (json_cell_count c) @ str (n + int (json_cell_count c))
      # id_range (n + int (json_cell_count c) + 1) ?k"
    by (simp only: id_range_add id_range_Cons)
  then show ?case
    by (simp add: head tail edge_cell_def)
qed

lemma ids_emitted_json:
  "map cid (emitted_json t parent_id x y level n) = id_range n (json_cell_count t)"
proof (induction t arbitrary: parent_id x y level n)
  case (Topic ttl att cal)
  let ?k = "sum_list (map (\<lambda>c. json_cell_count c + 1) att)"
  have kids: "\<forall>c\<in>set att. \<forall>parent_id x y level n.
     map cid (emitted_json c parent_id x y level n) = id_range n (json_cell_count c)"
    by (simp add: Topic.IH(1))
  have "json_cell_count (Topic ttl att cal) = Suc (?k + 2 * length cal)"
    by simp
  then have "id_range n (json_cell_count (Topic ttl att cal)) =
      str n # id_range (n + 1) ?k @ id_range (n + 1 + int ?k) (2 * length cal)"
    by (simp only: id_range_add id_range_Cons)
  moreover have "cid (vertex_cell i ttl st x y w h) = i" for i ttl st x y w h
    by (simp add: vertex_cell_def)
  ultimately show ?case
    unfolding emitted_json_unfold [of "Topic ttl att cal"]
    by (simp add: ids_child_cells [OF kids] ids_callout_cells)
qed

lemma length_emitted_json: "length (emitted_json t parent_id x y level n) = json_cell_count t"
  using arg_cong [OF ids_emitted_json, of length t parent_id x y level n] by simp

lemma kind_topic_vertex [simp]:
  "cell_kind_of (vertex_cell i ttl (get_style level) x y w h) = TopicVertex"
  by (simp add: cell_kind_of_def vertex_cell_def get_style_def)

lemma kind_callout_vertex [simp]:
  "cell_kind_of (vertex_cell i ttl callout_style x y w h) = CalloutVertex"
  by (simp add: cell_kind_of_def vertex_cell_def callout_style_def root_style_def
      level1_style_def deeper_style_def)

lemma kind_connector [simp]:
  "cell_kind_of (edge_cell i connector_style s t) = StructuralConnector"
  by (simp add: cell_kind_of_def edge_cell_def)

lemma kind_dashed [simp]:
  "cell_kind_of (edge_cell i dashed_style s t) = DashedConnector"
  by (simp add: cell_kind_of_def edge_cell_def connector_style_def dashed_style_def)

lemma kinds_callout_cells:
  "map cell_kind_of (callout_cells cs idx current_id x y n) =
     concat (map (\<lambda>c. [CalloutVertex, DashedConnector]) cs)"
  by (induction cs arbitrary: idx n) simp_all

lemma kinds_child_cells:
  assumes "\<forall>c\<in>set cs. \<forall>parent_id x y level n.
     map cell_kind_of (emitted_json c parent_id x y level n) = emission_order c"
  shows "map cell_kind_of (child_cells cs current_id x level cursor n) =
     concat (map (\<lambda>c. emission_order c @ [StructuralConnector]) cs)"
  using assms by (induction cs arbitrary: cursor n) simp_all

lemma kinds_emitted_json:
  "map cell_kind_of (emitted_json t parent_id x y level n) = emission_order t"
proof (induction t arbitrary: parent_id x y level n)
  case (Topic ttl att cal)
  have "\<forall>c\<in>set att. \<forall>parent_id x y level n.
     map cell_kind_of (emitted_json c parent_id x y level n) = emission_order c"
    by (simp add: Topic.IH(1))
  then show ?case
    by (subst emitted_json_unfold) (simp add: kinds_child_cells kinds_callout_cells)
qed

lemma parent_callout_cells:
  "\<forall>c\<in>set (callout_cells cs idx current_id x y n). cparent c = Some ''1''"
  by (induction cs arbitrary: idx n) (simp_all add: vertex_cell_def edge_cell_def)

lemma parent_child_cells:
  assumes "\<forall>c\<in>set cs. \<forall>parent_id x y level n.
     \<forall>m\<in>set (emitted_json c parent_id x y level n). cparent m = Some ''1''"
  shows "\<forall>m\<in>set (child_cells cs current_id x level cursor n). cparent m = Some ''1''"
  using assms
proof (induction cs arbitrary: cursor n)
  case Nil
  show ?case by simp
next
  case (Cons c cs)
  have head: "\<forall>m\<in>set (emitted_json c parent_id x y level n). cparent m = Some ''1''"
    for parent_id x y level n
    using Cons.prems by simp
  have tail: "\<forall>m\<in>set (child_cells cs current_id x level cursor n). cparent m = Some ''1''"
    for cursor n
    using Cons.prems by (intro Cons.IH) simp
  show ?case
    using head tail by (auto simp: edge_cell_def)
qed

lemma parent_emitted_json:
  "\<forall>m\<in>set (emitted_json t parent_id x y level n). cparent m = Some ''1''"
proof (induction t arbitrary: parent_id x y level n)
  case (Topic ttl att cal)
  have kids: "\<forall>c\<in>set (attached (Topic ttl att cal)). \<forall>parent_id x y level n.
     \<forall>m\<in>set (emitted_json c parent_id x y level n). cparent m = Some ''1''"
    by (simp add: Topic.IH(1))
  show ?case
    unfolding emitted_json_unfold [of "Topic ttl att cal"]
    using parent_child_cells [OF kids] parent_callout_cells
    by (auto simp: vertex_cell_def)
qed

lemma xml_child_cells_normalized:
  "xml_child_cells cs current_id x level cursor n =
     child_cells (map normalized_view cs) current_id x level cursor n"
  by (induction cs arbitrary: cursor n)
    (simp_all add: emitted_xml_normalized xml_height_normalized length_emitted_json Let_def)

lemma xml_layout:
  "root (snd (convert_xml_topic e parent_id x y level g)) =
     root g
     @ vertex_cell (str (cell_id g)) (xml_title e) (get_style level) x y 120 60
     # xml_child_cells (xml_attached e) (str (cell_id g)) x level
         (y - of_int (sum_list (map calculate_xml_subtree_height (xml_attached e))) / 2)
         (cell_id g + 1)"
  unfolding convert_xml_topic_normalized json_layout heights_normalized_view [symmetric]
  by (simp add: topic_title_normalized_view callout_normalized_view
      attached_normalized_view xml_child_cells_normalized)

subsection \<open>Counting the kinds\<close>

lemma count_list_concat_map:
  "count_list (concat (map f xs)) k = sum_list (map (\<lambda>x. count_list (f x) k) xs)"
  by (induction xs) simp_all



lemma count_emission_callouts:
  "count_list (emission_order t) CalloutVertex = count_callouts t"
proof (induction t)
  case (Topic ttl att cal)
  have "map (\<lambda>c. count_list (emission_order c) CalloutVertex) att = map count_callouts att"
    by (rule map_cong) (simp_all add: Topic.IH(1))
  then have "sum_list (map (\<lambda>c. count_list (emission_order c) CalloutVertex) att) =
      sum_list (map count_callouts att)"
    by (rule arg_cong)
  then show ?case
    by (simp add: count_list_concat_map sum_list_triv)
qed

lemma count_emission_dashed:
  "count_list (emission_order t) DashedConnector = count_callouts t"
proof (induction t)
  case (Topic ttl att cal)
  have "map (\<lambda>c. count_list (emission_order c) DashedConnector) att = map count_callouts att"
    by (rule map_cong) (simp_all add: Topic.IH(1))
  then have "sum_list (map (\<lambda>c. count_list (emission_order c) DashedConnector) att) =
      sum_list (map count_callouts att)"
    by (rule arg_cong)
  then show ?case
    by (simp add: count_list_concat_map sum_list_triv)
qed


subsection \<open>The document\<close>

lemma cid_default_cell [simp]: "cid (default_cell i p) = i"
  by (simp add: default_cell_def)

lemma cparent_default_cell [simp]: "cparent (default_cell i p) = p"
  by (simp add: default_cell_def)

lemma kind_default_cell [simp]: "cell_kind_of (default_cell i p) = OtherCell"
  by (simp add: default_cell_def cell_kind_of_def)

lemma create_drawio_xml_cells:
  assumes "create_drawio_xml g (Some rt) is_json = Inr doc"
  shows "cells doc = [default_cell ''0'' None, default_cell ''1'' (Some ''0'')]
     @ emitted_json (view rt) ''1'' 400 300 0 (cell_id g)"
  using assms
  by (cases rt; cases is_json)
    (auto simp: create_drawio_xml_def view_def wrap_mxfile_def sub_element_def Let_def
      convert_json_topic_frame convert_xml_topic_normalized
      simp del: convert_json_topic.simps)

lemma kinds_of_document:
  assumes "create_drawio_xml init_generator (Some rt) is_json = Inr doc"
  shows "map cell_kind_of (cells doc) = OtherCell # OtherCell # emission_order (view rt)"
  using create_drawio_xml_cells [OF assms] by (simp add: kinds_emitted_json)

lemma create_drawio_xml_json:
  "\<exists>doc. create_drawio_xml g (Some (JsonTopic t)) True = Inr doc"
  by (simp add: create_drawio_xml_def)

lemma create_drawio_xml_xml:
  "\<exists>doc. create_drawio_xml g (Some (XmlTopic e)) False = Inr doc"
  by (simp add: create_drawio_xml_def)

subsection \<open>Parser and converter\<close>

lemma parse_flag_json:
  "returned (parse env p) = Some (RawJson d) \<Longrightarrow> is_json_format (parse env p)"
  by (auto simp: parse_def parse_error_def split: sum.splits option.splits if_splits)

lemma parse_flag_xml:
  "returned (parse env p) = Some (RawXml x) \<Longrightarrow> \<not> is_json_format (parse env p)"
  by (auto simp: parse_def parse_error_def split: sum.splits option.splits if_splits)

lemma convert_file_writes_after_document:
  "convert_file env output_dir p w = Returned w' \<or> convert_file env output_dir p w = Raised err w'
   \<Longrightarrow> files w' = files w
     \<or> (\<exists>r rt doc.
           returned (parse env (path_str p)) = Some r
           \<and> get_root_topic (is_json_format (parse env (path_str p))) r = Inr (Some rt)
           \<and> create_drawio_xml init_generator (Some rt) (is_json_format (parse env (path_str p)))
               = Inr doc
           \<and> (files w' = (files w)(output_dir @ ''/'' @ stem p @ ''.drawio'' \<mapsto> Complete doc)
              \<or> files w' = (files w)(output_dir @ ''/'' @ stem p @ ''.drawio'' \<mapsto> Truncated)))"
  by (auto simp: convert_file_def print_def Let_def
      split: option.splits sum.splits write_outcome.splits)

subsection \<open>The worked examples, evaluated\<close>

lemma example_conversion:
  "create_drawio_xml init_generator (Some (JsonTopic example_topic)) True = Inr example_document"
  by code_simp

lemma example_xml_conversion:
  "create_drawio_xml init_generator (Some (XmlTopic example_element)) False = Inr example_xml_document"
  by code_simp

lemma example_root_topic:
  "get_root_topic False (RawXml example_xml_root) = Inr (Some (XmlTopic example_element))"
  by code_simp

lemma example_failures:
  "convert_file example_environment ''out'' (xmind_file ''plain'') empty_world =
     Returned \<lparr>files = Map.empty,
               stdout = [''Converting: plain.xmind'', ''  Failed to parse plain.xmind'']\<rparr>"
  "convert_file example_environment ''out'' (xmind_file ''norootjson'') empty_world =
     Returned \<lparr>files = Map.empty,
               stdout = [''Converting: norootjson.xmind'',
                         ''  No root topic found in norootjson.xmind'']\<rparr>"
  "convert_file example_environment ''out'' (xmind_file ''notadict'') empty_world =
     Raised (ConversionError AttributeError)
       \<lparr>files = Map.empty, stdout = [''Converting: notadict.xmind'']\<rparr>"
  by (simp_all add: convert_file_def parse_def parse_error_def example_environment_def
      xmind_file_def empty_world_def path_str_def path_name_def print_def get_root_topic_def Let_def)

lemma example_success:
  "convert_file example_environment ''out'' (xmind_file ''new'') empty_world =
     Returned \<lparr>files = [''out/new.drawio'' \<mapsto> Complete example_document],
               stdout = [''Converting: new.xmind'', ''  Saved to: out/new.drawio'']\<rparr>"
  "convert_file example_environment ''full'' (xmind_file ''new'') empty_world =
     Raised (WriteError ''No space left on device'')
       \<lparr>files = [''full/new.drawio'' \<mapsto> Truncated], stdout = [''Converting: new.xmind'']\<rparr>"
  "convert_file example_environment ''out'' (xmind_file ''old'') empty_world =
     Returned \<lparr>files = [''out/old.drawio'' \<mapsto> Complete example_xml_document],
               stdout = [''Converting: old.xmind'', ''  Saved to: out/old.drawio'']\<rparr>"
proof -
  show "convert_file example_environment ''out'' (xmind_file ''new'') empty_world =
     Returned \<lparr>files = [''out/new.drawio'' \<mapsto> Complete example_document],
               stdout = [''Converting: new.xmind'', ''  Saved to: out/new.drawio'']\<rparr>"
    by (simp add: convert_file_def parse_def parse_error_def example_environment_def
        xmind_file_def empty_world_def path_str_def path_name_def print_def get_root_topic_def
        Let_def example_conversion del: convert_json_topic.simps)
  show "convert_file example_environment ''full'' (xmind_file ''new'') empty_world =
     Raised (WriteError ''No space left on device'')
       \<lparr>files = [''full/new.drawio'' \<mapsto> Truncated], stdout = [''Converting: new.xmind'']\<rparr>"
    by (simp add: convert_file_def parse_def parse_error_def example_environment_def
        xmind_file_def empty_world_def path_str_def path_name_def print_def get_root_topic_def
        Let_def example_conversion del: convert_json_topic.simps)
  have "parse example_environment ''in/old.xmind'' =
      \<lparr>is_json_format = False, printed = [], returned = Some (RawXml example_xml_root)\<rparr>"
    by (simp add: parse_def example_environment_def)
  then show "convert_file example_environment ''out'' (xmind_file ''old'') empty_world =
     Returned \<lparr>files = [''out/old.drawio'' \<mapsto> Complete example_xml_document],
               stdout = [''Converting: old.xmind'', ''  Saved to: out/old.drawio'']\<rparr>"
    by (simp add: convert_file_def xmind_file_def empty_world_def path_str_def path_name_def
        print_def Let_def example_root_topic example_xml_conversion example_environment_def)
qed

section \<open>The claims\<close>

text \<open>
  C1, as stated, orders the ids: topic vertex, the connector to its parent, its callouts
  with their dashed connectors, then the children's subtrees (\<open>claimed_id_order\<close> writes
  that order down). On the worked example the code assigns the ids \<^verbatim>\<open>2\<close> to \<^verbatim>\<open>10\<close> in
  another order: the connector from the root to its first child gets id \<^verbatim>\<open>8\<close>, after that
  child's whole subtree and callout, not id \<^verbatim>\<open>4\<close>.
\<close>

theorem claimed_id_order_counterexample:
  "map cid (root (snd (convert_json_topic example_topic ''1'' 400 300 0 init_generator))) =
     [''2'', ''3'', ''4''] @ [''5'', ''6'', ''7''] @ [''8'', ''9'', ''10'']
   \<and> map cell_kind_of (root (snd (convert_json_topic example_topic ''1'' 400 300 0 init_generator))) =
     [TopicVertex, TopicVertex, TopicVertex, StructuralConnector, CalloutVertex, DashedConnector,
      StructuralConnector, TopicVertex, StructuralConnector]
   \<and> claimed_id_order False example_topic =
     [TopicVertex, TopicVertex, StructuralConnector, CalloutVertex, DashedConnector, TopicVertex,
      StructuralConnector, TopicVertex, StructuralConnector]
   \<and> map cell_kind_of (root (snd (convert_json_topic example_topic ''1'' 400 300 0 init_generator)))
       \<noteq> claimed_id_order False example_topic"
  by code_simp

text \<open>
  C1, amended: the generated ids are the consecutive integers from 2 in the order of
  emission, and that order is depth-first: a topic's vertex, then for each attached child in
  order the child's whole subtree followed by the connector from the topic to that child,
  then for each callout of the topic the callout vertex followed by its dashed connector.
\<close>

theorem ids_follow_emission_order:
  assumes "create_drawio_xml init_generator (Some rt) is_json = Inr doc"
  shows "map cid (drop 2 (cells doc)) = id_range 2 (length (cells doc) - 2)
    \<and> map cell_kind_of (drop 2 (cells doc)) = emission_order (view rt)"
  using create_drawio_xml_cells [OF assms]
  by (simp add: init_generator_def ids_emitted_json kinds_emitted_json length_emitted_json)

theorem ids_follow_emission_order_witness:
  "create_drawio_xml init_generator (Some (JsonTopic example_topic)) True = Inr example_document
   \<and> map cid (drop 2 (cells example_document)) =
       [''2'', ''3'', ''4''] @ [''5'', ''6'', ''7''] @ [''8'', ''9'', ''10'']
   \<and> map cell_kind_of (drop 2 (cells example_document)) =
       [TopicVertex, TopicVertex, TopicVertex, StructuralConnector, CalloutVertex, DashedConnector,
        StructuralConnector, TopicVertex, StructuralConnector]"
proof -
  have "id_range 2 (length (cells example_document) - 2) =
       [''2'', ''3'', ''4''] @ [''5'', ''6'', ''7''] @ [''8'', ''9'', ''10'']"
    by code_simp
  moreover have "emission_order (view (JsonTopic example_topic)) =
       [TopicVertex, TopicVertex, TopicVertex, StructuralConnector, CalloutVertex, DashedConnector,
        StructuralConnector, TopicVertex, StructuralConnector]"
    by code_simp
  ultimately show ?thesis
    using ids_follow_emission_order [OF example_conversion] example_conversion by simp
qed

text \<open>
  C2: in every converted document no two cells share an id; the ids \<^verbatim>\<open>0\<close> and \<^verbatim>\<open>1\<close> occur
  exactly once each, on the two structural cells emitted first; the cell with id \<^verbatim>\<open>1\<close>
  has parent \<^verbatim>\<open>0\<close>; no generated cell has id \<^verbatim>\<open>0\<close> or \<^verbatim>\<open>1\<close>.
\<close>

theorem cell_ids_unique:
  assumes "create_drawio_xml init_generator (Some rt) is_json = Inr doc"
  shows "distinct (map cid (cells doc))
    \<and> count_list (map cid (cells doc)) ''0'' = 1
    \<and> count_list (map cid (cells doc)) ''1'' = 1
    \<and> map cid (take 2 (cells doc)) = [''0'', ''1'']
    \<and> (\<forall>c\<in>set (cells doc). cid c = ''1'' \<longrightarrow> cparent c = Some ''0'')
    \<and> (\<forall>c\<in>set (drop 2 (cells doc)). cid c \<noteq> ''0'' \<and> cid c \<noteq> ''1'')"
proof -
  let ?gen = "emitted_json (view rt) ''1'' 400 300 0 2"
  let ?k = "json_cell_count (view rt)"
  have cells: "cells doc = [default_cell ''0'' None, default_cell ''1'' (Some ''0'')] @ ?gen"
    using create_drawio_xml_cells [OF assms] by (simp add: init_generator_def)
  have ids: "map cid ?gen = id_range 2 ?k"
    by (rule ids_emitted_json)
  have d: "distinct (id_range 2 ?k)"
    by (rule distinct_id_range) simp
  have r0: "''0'' \<notin> set (id_range 2 ?k)" and r1: "''1'' \<notin> set (id_range 2 ?k)"
    by (rule reserved_not_in_id_range, simp)+
  have gen_ids: "\<forall>c\<in>set ?gen. cid c \<noteq> ''0'' \<and> cid c \<noteq> ''1''"
  proof
    fix c assume "c \<in> set ?gen"
    then have "cid c \<in> set (map cid ?gen)" by simp
    with ids r0 r1 show "cid c \<noteq> ''0'' \<and> cid c \<noteq> ''1''" by auto
  qed
  have "distinct (map cid (cells doc))"
    using d r0 r1 by (simp add: cells ids)
  moreover have "count_list (map cid (cells doc)) ''0'' = 1"
    using r0 by (simp add: cells ids count_list_0_iff)
  moreover have "count_list (map cid (cells doc)) ''1'' = 1"
    using r1 by (simp add: cells ids count_list_0_iff)
  moreover have "map cid (take 2 (cells doc)) = [''0'', ''1'']"
    by (simp add: cells)
  moreover have "\<forall>c\<in>set (cells doc). cid c = ''1'' \<longrightarrow> cparent c = Some ''0''"
    using gen_ids by (auto simp: cells)
  moreover have "\<forall>c\<in>set (drop 2 (cells doc)). cid c \<noteq> ''0'' \<and> cid c \<noteq> ''1''"
    using gen_ids by (simp add: cells)
  ultimately show ?thesis by blast
qed

theorem cell_ids_unique_witness:
  "create_drawio_xml init_generator (Some (JsonTopic example_topic)) True = Inr example_document
   \<and> distinct (map cid (cells example_document))
   \<and> count_list (map cid (cells example_document)) ''0'' = 1
   \<and> count_list (map cid (cells example_document)) ''1'' = 1
   \<and> map cid (cells example_document) =
       [''0'', ''1''] @ [''2'', ''3'', ''4''] @ [''5'', ''6'', ''7''] @ [''8'', ''9'', ''10'']"
proof -
  have "map cid (cells example_document) =
       [''0'', ''1''] @ [''2'', ''3'', ''4''] @ [''5'', ''6'', ''7''] @ [''8'', ''9'', ''10'']"
    by code_simp
  then show ?thesis
    using cell_ids_unique [OF example_conversion] example_conversion by simp
qed

text \<open>
  C3: the subtree height is the base, 120 plus 70 per callout when the topic has callouts,
  if the topic has no attached children, and otherwise the maximum of the base and the sum
  of the children's subtree heights. The XML function computes the same with no callouts:
  it is the JSON function on the normalized view.
\<close>

theorem subtree_height_formula:
  "calculate_subtree_height t =
     (let base = 120 + (if callout t = [] then 0 else int (length (callout t)) * 70)
      in if attached t = [] then base
         else max base (sum_list (map calculate_subtree_height (attached t))))
   \<and> calculate_xml_subtree_height e =
     (if xml_attached e = [] then 120
      else max 120 (sum_list (map calculate_xml_subtree_height (xml_attached e))))
   \<and> calculate_xml_subtree_height e = calculate_subtree_height (normalized_view e)"
proof (intro conjI)
  show "calculate_subtree_height t =
     (let base = 120 + (if callout t = [] then 0 else int (length (callout t)) * 70)
      in if attached t = [] then base
         else max base (sum_list (map calculate_subtree_height (attached t))))"
    by (cases t) (simp add: Let_def min_y_spacing_def callout_spacing_def max.commute)
  show "calculate_xml_subtree_height e =
     (if xml_attached e = [] then 120
      else max 120 (sum_list (map calculate_xml_subtree_height (xml_attached e))))"
    by (subst calculate_xml_subtree_height.simps)
      (simp add: xml_attached_def Let_def min_y_spacing_def max.commute split: option.splits)
  show "calculate_xml_subtree_height e = calculate_subtree_height (normalized_view e)"
    by (rule xml_height_normalized)
qed

theorem subtree_height_formula_witness:
  "calculate_subtree_height example_topic = 310
   \<and> map calculate_subtree_height (attached example_topic) = [190, 120]
   \<and> calculate_xml_subtree_height example_element = 240"
proof -
  note inst = subtree_height_formula [of example_topic example_element]
  have "callout example_topic = []" and "attached example_topic \<noteq> []"
    and "map calculate_subtree_height (attached example_topic) = [190, 120]"
    and "xml_attached example_element \<noteq> []"
    and "map calculate_xml_subtree_height (xml_attached example_element) = [120, 120]"
    by code_simp+
  with inst show ?thesis
    by (simp add: Let_def)
qed

text \<open>
  C4: a topic converted at \<open>(x, y)\<close> gets its vertex at \<open>(x, y)\<close>. Its attached children are
  laid out by \<open>child_cells\<close> (\<open>xml_child_cells\<close> for XML) with the cursor starting at
  \<open>y\<close> minus half the sum of the children's subtree heights: each child in order is
  converted at \<open>(x + 250, cursor + height / 2)\<close>, followed by its connector, and the cursor
  advances by that height. Its callouts are laid out by \<open>callout_cells\<close> from index 0: the
  callout with index \<open>i\<close> sits at \<open>(x - 50, y - 80 - i * 70)\<close>.
\<close>

theorem layout_positions:
  "root (snd (convert_json_topic t parent_id x y level g)) =
     root g
     @ vertex_cell (str (cell_id g)) (topic_title t) (get_style level) x y 120 60
     # child_cells (attached t) (str (cell_id g)) x level
         (y - of_int (sum_list (map calculate_subtree_height (attached t))) / 2)
         (cell_id g + 1)
     @ callout_cells (callout t) 0 (str (cell_id g)) x y
         (cell_id g + 1 + int (sum_list (map (\<lambda>c. json_cell_count c + 1) (attached t))))
   \<and> root (snd (convert_xml_topic e parent_id x y level g)) =
     root g
     @ vertex_cell (str (cell_id g)) (xml_title e) (get_style level) x y 120 60
     # xml_child_cells (xml_attached e) (str (cell_id g)) x level
         (y - of_int (sum_list (map calculate_xml_subtree_height (xml_attached e))) / 2)
         (cell_id g + 1)"
  using json_layout xml_layout by (rule conjI)

theorem layout_positions_witness:
  "map cgeometry (root (snd (convert_json_topic example_topic ''1'' 400 300 0 init_generator))) =
     [Some (Box 400 300 120 60), Some (Box 650 240 120 60), Some (Box 900 240 120 60),
      Some Relative, Some (Box 600 160 200 60), Some Relative, Some Relative,
      Some (Box 650 395 120 60), Some Relative]
   \<and> map cgeometry (root (snd (convert_xml_topic example_element ''1'' 400 300 0 init_generator))) =
     [Some (Box 400 300 120 60), Some (Box 650 240 120 60), Some Relative,
      Some (Box 650 360 120 60), Some Relative]"
proof -
  note inst = layout_positions [of example_topic "''1''" 400 300 0 init_generator example_element]
  have j: "map cgeometry
     (root init_generator
      @ vertex_cell (str (cell_id init_generator)) (topic_title example_topic) (get_style 0)
          400 300 120 60
      # child_cells (attached example_topic) (str (cell_id init_generator)) 400 0
          (300 - of_int (sum_list (map calculate_subtree_height (attached example_topic))) / 2)
          (cell_id init_generator + 1)
      @ callout_cells (callout example_topic) 0 (str (cell_id init_generator)) 400 300
          (cell_id init_generator + 1
           + int (sum_list (map (\<lambda>c. json_cell_count c + 1) (attached example_topic))))) =
     [Some (Box 400 300 120 60), Some (Box 650 240 120 60), Some (Box 900 240 120 60),
      Some Relative, Some (Box 600 160 200 60), Some Relative, Some Relative,
      Some (Box 650 395 120 60), Some Relative]"
    by code_simp
  have x: "map cgeometry
     (root init_generator
      @ vertex_cell (str (cell_id init_generator)) (xml_title example_element) (get_style 0)
          400 300 120 60
      # xml_child_cells (xml_attached example_element) (str (cell_id init_generator)) 400 0
          (300 - of_int (sum_list (map calculate_xml_subtree_height (xml_attached example_element))) / 2)
          (cell_id init_generator + 1)) =
     [Some (Box 400 300 120 60), Some (Box 650 240 120 60), Some Relative,
      Some (Box 650 360 120 60), Some Relative]"
    by code_simp
  from inst j x show ?thesis
    by simp
qed



text \<open>
  C6 fails on the JSON path: a JSON topic whose title is the empty string is emitted with
  the empty string as its display text, while an absent JSON title and an empty XML title
  are both replaced by the placeholder \<^verbatim>\<open>Topic\<close>.
\<close>

theorem json_empty_title_is_kept:
  "map cvalue (root (snd (convert_json_topic (Topic (Some '''') [] []) ''1'' 400 300 0 init_generator)))
     = [Some '''']
   \<and> map cvalue (root (snd (convert_json_topic (Topic None [] []) ''1'' 400 300 0 init_generator)))
     = [Some ''Topic'']
   \<and> map cvalue (root (snd (convert_xml_topic
         (Element (xmap ''topic'') None [Element (xmap ''title'') (Some '''') []])
         ''1'' 400 300 0 init_generator)))
     = [Some ''Topic'']"
  by code_simp

text \<open>
  C7, as stated, has the reader fail with an \<^verbatim>\<open>UnsupportedFormat\<close> error, distinct from
  \<^verbatim>\<open>ParseFailure\<close>, when neither payload entry is present. In the code \<^verbatim>\<open>parse\<close> returns
  \<^verbatim>\<open>None\<close> for an archive with neither entry, prints nothing, and returns the same
  \<^verbatim>\<open>None\<close> for an archive whose \<^verbatim>\<open>content.json\<close> does not parse.
\<close>

theorem unsupported_format_not_distinguished:
  "returned (parse example_environment ''in/plain.xmind'') = None
   \<and> printed (parse example_environment ''in/plain.xmind'') = []
   \<and> returned (parse example_environment ''in/corrupt.xmind'') = None
   \<and> printed (parse example_environment ''in/corrupt.xmind'') =
       [''Error parsing in/corrupt.xmind: Expecting property name'']
   \<and> returned (parse example_environment ''in/plain.xmind'') =
       returned (parse example_environment ''in/corrupt.xmind'')"
  by (simp add: parse_def parse_error_def example_environment_def)

text \<open>
  C7, amended: when \<^verbatim>\<open>content.json\<close> is present the reader parses it and reports the
  JSON encoding; otherwise, when \<^verbatim>\<open>content.xml\<close> is present, it parses that and reports
  the XML encoding; when neither is present it returns no document and prints nothing; an
  I/O or parse failure is caught, its cause is printed, and the reader returns no document
  as well.
\<close>

theorem reader_outcomes:
  "(open_zip env p = Inr z \<and> z ''content.json'' = Some c \<and> json_loads env c = Inr d \<longrightarrow>
      is_json_format (parse env p) \<and> printed (parse env p) = []
      \<and> returned (parse env p) = (if d = JsonNull then None else Some (RawJson d)))
   \<and> (open_zip env p = Inr z \<and> z ''content.json'' = None \<and> z ''content.xml'' = Some c
        \<and> et_fromstring env c = Inr x \<longrightarrow>
      \<not> is_json_format (parse env p) \<and> printed (parse env p) = []
      \<and> returned (parse env p) = Some (RawXml x))
   \<and> (open_zip env p = Inr z \<and> z ''content.json'' = None \<and> z ''content.xml'' = None \<longrightarrow>
      returned (parse env p) = None \<and> printed (parse env p) = [])
   \<and> (open_zip env p = Inl e
        \<or> (open_zip env p = Inr z \<and> z ''content.json'' = Some c \<and> json_loads env c = Inl e)
        \<or> (open_zip env p = Inr z \<and> z ''content.json'' = None \<and> z ''content.xml'' = Some c
            \<and> et_fromstring env c = Inl e) \<longrightarrow>
      returned (parse env p) = None
      \<and> printed (parse env p) = [''Error parsing '' @ p @ '': '' @ e])"
  by (auto simp: parse_def parse_error_def)

theorem reader_outcomes_witness:
  "is_json_format (parse example_environment ''in/new.xmind'')
   \<and> returned (parse example_environment ''in/new.xmind'') =
       Some (RawJson (JsonSheets [Sheet (Some example_topic)]))
   \<and> returned (parse example_environment ''in/old.xmind'') = Some (RawXml example_xml_root)
   \<and> returned (parse example_environment ''in/plain.xmind'') = None
   \<and> printed (parse example_environment ''in/plain.xmind'') = []
   \<and> returned (parse example_environment ''in/missing.xmind'') = None
   \<and> printed (parse example_environment ''in/missing.xmind'') =
       [''Error parsing in/missing.xmind: No such file'']"
proof -
  have new: "open_zip example_environment ''in/new.xmind'' =
      Inr [''content.json'' \<mapsto> ''J'', ''content.xml'' \<mapsto> ''X'']"
    and old: "open_zip example_environment ''in/old.xmind'' = Inr [''content.xml'' \<mapsto> ''X'']"
    and plain: "open_zip example_environment ''in/plain.xmind'' = Inr [''meta.xml'' \<mapsto> ''M'']"
    and missing: "open_zip example_environment ''in/missing.xmind'' = Inl ''No such file''"
    and loads: "json_loads example_environment ''J'' = Inr (JsonSheets [Sheet (Some example_topic)])"
    and fromstring: "et_fromstring example_environment ''X'' = Inr example_xml_root"
    by (simp_all add: example_environment_def)
  from reader_outcomes [of example_environment "''in/new.xmind''"
      "[''content.json'' \<mapsto> ''J'', ''content.xml'' \<mapsto> ''X'']" "''J''"
      "JsonSheets [Sheet (Some example_topic)]"]
  have a: "is_json_format (parse example_environment ''in/new.xmind'')
     \<and> returned (parse example_environment ''in/new.xmind'') =
       Some (RawJson (JsonSheets [Sheet (Some example_topic)]))"
    using new loads by simp
  from reader_outcomes [of example_environment "''in/old.xmind''"
      "[''content.xml'' \<mapsto> ''X'']" "''X''" _ example_xml_root]
  have b: "returned (parse example_environment ''in/old.xmind'') = Some (RawXml example_xml_root)"
    using old fromstring by simp
  from reader_outcomes [of example_environment "''in/plain.xmind''" "[''meta.xml'' \<mapsto> ''M'']"]
  have c: "returned (parse example_environment ''in/plain.xmind'') = None
     \<and> printed (parse example_environment ''in/plain.xmind'') = []"
    using plain by simp
  from reader_outcomes [of example_environment "''in/missing.xmind''" _ _ _ _ "''No such file''"]
  have d: "returned (parse example_environment ''in/missing.xmind'') = None
     \<and> printed (parse example_environment ''in/missing.xmind'') =
       [''Error parsing in/missing.xmind: No such file'']"
    using missing by simp
  from a b c d show ?thesis by simp
qed

text \<open>
  C8: converting an XML topic always succeeds, and the document holds no callout vertex
  and no dashed connector; the normalized view of an XML topic has an empty callout list.
\<close>

theorem xml_conversion_has_no_callouts:
  "\<exists>doc. create_drawio_xml init_generator (Some (XmlTopic e)) False = Inr doc
     \<and> count_list (map cell_kind_of (cells doc)) CalloutVertex = 0
     \<and> count_list (map cell_kind_of (cells doc)) DashedConnector = 0
     \<and> callout (view (XmlTopic e)) = []"
proof -
  obtain doc where doc: "create_drawio_xml init_generator (Some (XmlTopic e)) False = Inr doc"
    by (simp add: create_drawio_xml_def)
  have "view (XmlTopic e) = normalized_view e"
    by (simp add: view_def)
  then show ?thesis
    using doc
    by (simp add: kinds_of_document [OF doc] count_emission_callouts
        count_emission_dashed count_callouts_normalized_view callout_normalized_view)
qed

theorem xml_conversion_has_no_callouts_witness:
  "create_drawio_xml init_generator (Some (XmlTopic example_element)) False = Inr example_xml_document
   \<and> count_list (map cell_kind_of (cells example_xml_document)) CalloutVertex = 0
   \<and> count_list (map cell_kind_of (cells example_xml_document)) DashedConnector = 0
   \<and> count_list (map cell_kind_of (cells example_xml_document)) TopicVertex = 3"
proof -
  have "count_list (map cell_kind_of (cells example_xml_document)) TopicVertex = 3"
    by code_simp
  then show ?thesis
    using xml_conversion_has_no_callouts [of example_element] example_xml_conversion by auto
qed

text \<open>
  C9: when the conversion of a file fails, because \<^verbatim>\<open>parse\<close> returns no document (a parse
  failure) or because \<^verbatim>\<open>get_root_topic\<close> finds no root topic, \<^verbatim>\<open>convert_file\<close> returns
  before the write step and the files are left unchanged: no output is produced for that
  file.
\<close>

theorem failed_conversion_writes_nothing:
  assumes "case returned (parse env (path_str p)) of
             None \<Rightarrow> True
           | Some r \<Rightarrow> get_root_topic (is_json_format (parse env (path_str p))) r = Inr None"
  shows "\<exists>w'. convert_file env output_dir p w = Returned w' \<and> files w' = files w"
proof (cases "returned (parse env (path_str p))")
  case None
  then show ?thesis
    by (simp add: convert_file_def print_def Let_def)
next
  case (Some r)
  with assms have "get_root_topic (is_json_format (parse env (path_str p))) r = Inr None"
    by simp
  with Some show ?thesis
    by (simp add: convert_file_def print_def Let_def)
qed

theorem failed_conversion_writes_nothing_witness:
  "convert_file example_environment ''out'' (xmind_file ''plain'') empty_world =
     Returned \<lparr>files = Map.empty,
               stdout = [''Converting: plain.xmind'', ''  Failed to parse plain.xmind'']\<rparr>
   \<and> convert_file example_environment ''out'' (xmind_file ''norootjson'') empty_world =
     Returned \<lparr>files = Map.empty,
               stdout = [''Converting: norootjson.xmind'',
                         ''  No root topic found in norootjson.xmind'']\<rparr>
   \<and> files empty_world = Map.empty"
proof -
  have parse_failed:
    "case returned (parse example_environment (path_str (xmind_file ''plain''))) of
       None \<Rightarrow> True
     | Some r \<Rightarrow>
         get_root_topic (is_json_format (parse example_environment (path_str (xmind_file ''plain'')))) r
           = Inr None"
    by (simp add: parse_def parse_error_def example_environment_def xmind_file_def
        path_str_def path_name_def)
  have no_root:
    "case returned (parse example_environment (path_str (xmind_file ''norootjson''))) of
       None \<Rightarrow> True
     | Some r \<Rightarrow>
         get_root_topic
           (is_json_format (parse example_environment (path_str (xmind_file ''norootjson'')))) r
           = Inr None"
    by (simp add: parse_def parse_error_def example_environment_def xmind_file_def
        path_str_def path_name_def get_root_topic_def)
  from failed_conversion_writes_nothing [OF parse_failed, of "''out''" empty_world]
    failed_conversion_writes_nothing [OF no_root, of "''out''" empty_world]
    example_failures(1,2)
  show ?thesis
    by (simp add: empty_world_def)
qed

text \<open>
  C10: every generated cell (topic vertex, callout vertex, structural connector, dashed
  connector), in either encoding, carries \<^verbatim>\<open>parent="1"\<close>: the generated cells are the
  cells of the document after the two structural ones, and the document is a flat list.
\<close>

theorem generated_cells_in_default_layer:
  assumes "create_drawio_xml init_generator (Some rt) is_json = Inr doc"
  shows "\<forall>c\<in>set (drop 2 (cells doc)). cparent c = Some ''1''"
  using parent_emitted_json
  by (simp add: create_drawio_xml_cells [OF assms])

theorem generated_cells_in_default_layer_witness:
  "create_drawio_xml init_generator (Some (JsonTopic example_topic)) True = Inr example_document
   \<and> list_all (\<lambda>c. cparent c = Some ''1'') (drop 2 (cells example_document))"
  using generated_cells_in_default_layer [OF example_conversion] example_conversion
  by (simp add: list_all_iff)

end
